theory Spec2Isabelle
  imports Complex_Main
begin

section \<open>The chop benchmark adapter (solvers/chop.py)\<close>

text \<open>
  The file defines one class, \<open>Solver\<close>, a plugin that a benchmarking harness drives
  through \<open>skip\<close>, \<open>set_objective\<close>, \<open>run\<close> and \<open>get_result\<close>. The numeric work is
  done by two libraries, torch and chop, whose code is not part of the file: their
  entry points are parameters of the model (record \<open>library\<close> below). Floating-point
  numbers are modelled as reals.
\<close>

subsection \<open>Data\<close>

datatype error =
    NotImplementedError
  | NameError string
  | AttributeError string
  | ValueError
  | IndexError
  | ZeroDivisionError
  | RuntimeError
  | LibraryError

datatype dtype = Bool | Int32 | Int64 | Float16 | Float32 | Float64

text \<open>
  An array or tensor: numeric precision, the device that holds it, its shape and its
  entries in row-major order.
\<close>

record tensor =
  dtype :: dtype
  tdevice :: string
  shape :: "nat list"
  elems :: "real list"

text \<open>
  A tensor object held by the \<open>Solver\<close>: the tensor it shows, and the number of the
  storage it is a view of. Two objects with the same storage share their entries: a
  write in place through one is seen through the other. \<open>clone\<close> gives an object on
  a new storage; \<open>detach\<close>, \<open>flatten\<close> and \<open>reshape\<close> give views of the same
  storage; an assignment such as \<open>self.beta = self.x0\<close> binds the same object.
\<close>

record handle = tensor +
  storage :: nat

definition value_of :: "handle \<Rightarrow> tensor" where
  "value_of h = \<lparr>dtype = dtype h, tdevice = tdevice h, shape = shape h, elems = elems h\<rparr>"

definition in_storage :: "tensor \<Rightarrow> nat \<Rightarrow> handle" where
  "in_storage t s =
     \<lparr>dtype = dtype t, tdevice = tdevice t, shape = shape t, elems = elems t, storage = s\<rparr>"

text \<open>A value of the \<open>batch_size\<close> parameter: a number or a string such as \<open>'full'\<close>.\<close>

datatype param = PInt int | PStr string

text \<open>
  The \<open>Solver\<close> object. The first seven fields are the entries of \<open>parameters\<close>, set by
  the harness; the fields \<open>self_...\<close> are the attributes that \<open>set_objective\<close> and the
  run methods assign, \<open>None\<close> while the attribute does not exist. The last field is
  not an attribute: it counts the storages allocated so far, so that a new tensor
  gets a storage that no object shares.
\<close>

record Solver =
  solver :: string
  line_search :: bool
  stochastic :: bool
  batch_size :: param
  normalization :: string
  momentum :: real
  device :: string
  self_lmbd :: "real option"
  self_X :: "handle option"
  self_y :: "handle option"
  self_x0 :: "handle option"
  self_criterion :: "(tensor \<Rightarrow> tensor \<Rightarrow> real) option"
  self_beta :: "handle option"
  allocated :: nat

text \<open>
  A write in place of the entries \<open>new\<close> into the storage \<open>s\<close>: every attribute that
  is a view of \<open>s\<close> shows the new entries.
\<close>

definition written :: "nat \<Rightarrow> real list \<Rightarrow> handle \<Rightarrow> handle" where
  "written s new h = (if storage h = s then h\<lparr>elems := new\<rparr> else h)"

definition write_through :: "nat \<Rightarrow> real list \<Rightarrow> Solver \<Rightarrow> Solver" where
  "write_through s new self =
     self\<lparr>self_X := map_option (written s new) (self_X self),
          self_y := map_option (written s new) (self_y self),
          self_x0 := map_option (written s new) (self_x0 self),
          self_beta := map_option (written s new) (self_beta self)\<rparr>"

subsection \<open>skip\<close>

text \<open>
  \<open>skip(self, X, y, lmbd)\<close>, lines 28-56. The first argument of the model is the value
  of \<open>torch.cuda.is_available()\<close>.
\<close>

definition skip :: "bool \<Rightarrow> Solver \<Rightarrow> tensor \<Rightarrow> tensor \<Rightarrow> real \<Rightarrow> bool \<times> string option" where
  "skip cuda_is_available self X y lmbd =
    (if device self = ''cuda'' \<and> \<not> cuda_is_available then
       (True, Some ''CUDA is not available.'')
     else if \<not> stochastic self \<and> batch_size self \<noteq> PStr ''full'' then
       (True, Some ''We only run stochastic=False if batch_size=='full'.'')
     else if stochastic self then
       (if batch_size self = PStr ''full'' then
          (True, Some ''We do not perform full batch optimization with a stochastic optimizer.'')
        else if line_search self then
          (True, Some ''We do not perform line-search with a stochastic optimizer.'')
        else (False, None))
     else
       (if normalization self \<noteq> ''none'' then
          (True, Some ''Normalizations are not used for full batch optimizers.'')
        else if momentum self \<noteq> 0 then
          (True, Some ''Momentum has no impact on full batch optimizers.'')
        else (False, None)))"

subsection \<open>The libraries\<close>

text \<open>
  The entry points of torch and chop that the run methods call. Their code is outside
  the file, so each is a parameter:
  \<^item> \<open>DataLoader lib X y b\<close>: the batches, in order, that iterating
    \<open>DataLoader(TensorDataset(X, y), batch_size=b)\<close> yields on each pass (the same
    list on every pass: the loader does not shuffle), or \<open>None\<close> when the
    constructors raise;
  \<^item> \<open>BCEWithLogitsLoss lib\<close>: what calling \<open>torch.nn.BCEWithLogitsLoss()\<close> on
    predictions and targets returns;
  \<^item> \<open>matmul lib\<close> and \<open>bmv lib\<close>: \<open>data @ x\<close> and \<open>chop.utils.bmv\<close>;
  \<^item> \<open>PGD lib x lr momentum normalization\<close>: the optimizer object that
    \<open>chop.stochastic.PGD([x], ...)\<close> builds around the variable \<open>x\<close>; \<open>variable lib\<close>
    reads the current value of that variable, which the optimizer updates in place;
  \<^item> \<open>backward_step lib loss opt\<close>: the optimizer after \<open>zero_grad()\<close>, the
    backward pass of the loss (given as a function of the variable) and \<open>step()\<close>;
  \<^item> \<open>minimize_pgd lib closure x0 prox step max_iter\<close>: a pair. Its first part is
    the point that \<open>chop.optim.minimize_pgd\<close> returns, or the exception that leaves
    it (its own, or one raised by the closure). Its second part is the entries that
    the call leaves in the array \<open>x0\<close> it was handed, which it may write in place.
\<close>

record 'o library =
  DataLoader :: "tensor \<Rightarrow> tensor \<Rightarrow> param \<Rightarrow> (tensor \<times> tensor) list option"
  BCEWithLogitsLoss :: "tensor \<Rightarrow> tensor \<Rightarrow> real"
  matmul :: "tensor \<Rightarrow> tensor \<Rightarrow> tensor"
  bmv :: "tensor \<Rightarrow> tensor \<Rightarrow> tensor"
  PGD :: "tensor \<Rightarrow> real \<Rightarrow> real \<Rightarrow> string \<Rightarrow> 'o"
  variable :: "'o \<Rightarrow> tensor"
  backward_step :: "(tensor \<Rightarrow> real) \<Rightarrow> 'o \<Rightarrow> 'o"
  minimize_pgd :: "(tensor \<Rightarrow> error + real) \<Rightarrow> tensor \<Rightarrow> (tensor \<Rightarrow> real option \<Rightarrow> tensor)
                   \<Rightarrow> string option \<Rightarrow> int \<Rightarrow> (error + tensor) \<times> real list"


subsection \<open>Names\<close>

text \<open>
  The run methods use the names \<open>X\<close> and \<open>y\<close> (lines 89 and 115-117) without
  binding them: they are neither parameters nor local variables there (and no
  builtins), so Python looks them up in the namespace of the module when the line runs,
  and raises \<open>NameError\<close> when the name is not bound. The namespace is a parameter
  \<open>g\<close> of the model.
\<close>

datatype pyobj = Module string | Class string | Object string | Tensor tensor

type_synonym globals = "string \<rightharpoonup> pyobj"

text \<open>
  The namespace that the file itself builds: its imports (lines 1-9) and the class
  (line 12).
\<close>

definition module_globals :: globals where
  "module_globals = map_of
     [(''warnings'', Module ''warnings''),
      (''os'', Module ''os''),
      (''BaseSolver'', Class ''benchopt.BaseSolver''),
      (''safe_import_context'', Class ''benchopt.safe_import_context''),
      (''TensorDataset'', Class ''torch.utils.data.dataset.TensorDataset''),
      (''import_ctx'', Object ''safe_import_context''),
      (''torch'', Module ''torch''),
      (''DataLoader'', Class ''torch.utils.data.DataLoader''),
      (''chop'', Module ''chop''),
      (''Solver'', Class ''Solver'')]"

text \<open>Evaluating a name that must denote a tensor.\<close>

definition lookup_tensor :: "globals \<Rightarrow> string \<Rightarrow> error + tensor" where
  "lookup_tensor g name =
    (case g name of
       None \<Rightarrow> Inl (NameError name)
     | Some (Tensor t) \<Rightarrow> Inr t
     | Some _ \<Rightarrow> Inl (AttributeError ''size''))"

text \<open>\<open>self.lmbd / X.size(0)\<close>, lines 89 and 115: the left operand is evaluated first.\<close>

definition penalty_scale :: "globals \<Rightarrow> Solver \<Rightarrow> error + real" where
  "penalty_scale g self =
    (case self_lmbd self of
       None \<Rightarrow> Inl (AttributeError ''lmbd'')
     | Some lmbd \<Rightarrow>
        (case lookup_tensor g ''X'' of
           Inl e \<Rightarrow> Inl e
         | Inr X \<Rightarrow>
            (case shape X of
               [] \<Rightarrow> Inl IndexError
             | n # _ \<Rightarrow> if n = 0 then Inl ZeroDivisionError else Inr (lmbd / real n))))"

subsection \<open>set_objective\<close>

text \<open>\<open>y > 0\<close> turned into a tensor of the given precision: true is 1.0, false is 0.0.\<close>

definition positive_labels :: "tensor \<Rightarrow> dtype \<Rightarrow> tensor" where
  "positive_labels y d =
     \<lparr>dtype = d, tdevice = tdevice y, shape = shape y,
      elems = map (\<lambda>v. if v > 0 then 1 else 0) (elems y)\<rparr>"

definition to_device :: "tensor \<Rightarrow> string \<Rightarrow> tensor" where
  "to_device t d = t\<lparr>tdevice := d\<rparr>"

definition zeros :: "nat \<Rightarrow> dtype \<Rightarrow> string \<Rightarrow> tensor" where
  "zeros n d dev = \<lparr>dtype = d, tdevice = dev, shape = [n], elems = replicate n 0\<rparr>"

text \<open>
  \<open>set_objective(self, X, y, lmbd)\<close>, lines 58-68. The arrays \<open>X\<close> and \<open>y\<close> that the
  harness passes are modelled like tensors, with the attributes \<open>shape\<close>, \<open>dtype\<close> and
  \<open>device\<close> that the method reads. \<open>torch.tensor(X)\<close> keeps the precision and the
  entries of \<open>X\<close>, and the calls into torch are taken to return. Each of
  \<open>torch.tensor\<close> and \<open>torch.zeros\<close> builds its tensor on a new storage. Unpacking
  \<open>X.shape\<close> into two names raises \<open>ValueError\<close> unless the shape has exactly two
  entries. The initial point is built from the attributes of the argument \<open>X\<close>
  (line 67), not from those of \<open>self.X\<close>.
\<close>

definition set_objective :: "'o library \<Rightarrow> Solver \<Rightarrow> tensor \<Rightarrow> tensor \<Rightarrow> real \<Rightarrow> error + Solver" where
  "set_objective lib self X y lmbd =
    (let self = self\<lparr>self_lmbd := Some lmbd\<rparr>;
         device = device self;
         self = self\<lparr>self_X := Some (in_storage (to_device X device) (allocated self)),
                     allocated := allocated self + 1\<rparr>;
         self = self\<lparr>self_y := Some (in_storage (to_device (positive_labels y Float64) device)
                                       (allocated self)),
                     allocated := allocated self + 1\<rparr>
     in case shape X of
          [_, n_features] \<Rightarrow>
            Inr (self\<lparr>self_x0 := Some (in_storage (zeros n_features (dtype X) (tdevice X))
                                           (allocated self)),
                      allocated := allocated self + 1,
                      self_criterion := Some (BCEWithLogitsLoss lib)\<rparr>)
        | _ \<Rightarrow> Inl ValueError)"

subsection \<open>run_stochastic\<close>

definition sum_squares :: "tensor \<Rightarrow> real" where
  "sum_squares x = sum_list (map (\<lambda>v. v ^ 2) (elems x))"

definition flatten :: "tensor \<Rightarrow> tensor" where
  "flatten t = t\<lparr>shape := [length (elems t)]\<rparr>"

text \<open>
  Line 77: \<open>requires_grad_\<close> raises \<open>RuntimeError\<close> on a tensor whose entries are not
  floating-point numbers.
\<close>

definition floating :: "dtype \<Rightarrow> bool" where
  "floating d \<longleftrightarrow> d = Float16 \<or> d = Float32 \<or> d = Float64"

text \<open>
  Lines 97-99: the loss of one batch as a function of the variable \<open>x\<close>.
\<close>

definition batch_loss ::
  "'o library \<Rightarrow> (tensor \<Rightarrow> tensor \<Rightarrow> real) \<Rightarrow> real \<Rightarrow> tensor \<Rightarrow> tensor \<Rightarrow> tensor \<Rightarrow> real" where
  "batch_loss lib criterion alpha data target x =
     criterion (matmul lib data x) target + 0.5 * alpha * sum_squares x"

text \<open>Lines 94-101: the body of the \<open>for\<close> loop, on the pair of the counter and the optimizer.\<close>

definition loop_body ::
  "'o library \<Rightarrow> Solver \<Rightarrow> real \<Rightarrow> tensor \<times> tensor \<Rightarrow> int \<times> 'o \<Rightarrow> error + int \<times> 'o" where
  "loop_body lib self alpha batch st =
    (case batch of (data, target) \<Rightarrow>
     case st of (counter, optimizer) \<Rightarrow>
       let counter = counter + 1 in
       (case self_criterion self of
          None \<Rightarrow> Inl (AttributeError ''criterion'')
        | Some criterion \<Rightarrow>
            Inr (counter, backward_step lib (batch_loss lib criterion alpha data target) optimizer)))"

text \<open>Line 93: one pass of the \<open>for\<close> loop over the loader, with the given body.\<close>

fun for_loader ::
  "('b \<Rightarrow> 's \<Rightarrow> error + 's) \<Rightarrow> 'b list \<Rightarrow> 's \<Rightarrow> error + 's" where
  "for_loader body [] st = Inr st"
| "for_loader body (batch # loader) st =
     (case body batch st of
        Inl e \<Rightarrow> Inl e
      | Inr st' \<Rightarrow> for_loader body loader st')"

text \<open>
  Lines 91-101: the \<open>while\<close> loop. The counter is compared with \<open>n_iter\<close> only here,
  between two passes. The loop need not end (an empty loader never moves the counter):
  \<open>None\<close> is the run that does not return.
\<close>

partial_function (option) while_loop ::
  "('b \<Rightarrow> int \<times> 'o \<Rightarrow> error + int \<times> 'o) \<Rightarrow> 'b list \<Rightarrow> int \<Rightarrow> int \<times> 'o
   \<Rightarrow> (error + int \<times> 'o) option" where
  "while_loop body loader n_iter st =
    (if fst st < n_iter then
       (case for_loader body loader st of
          Inl e \<Rightarrow> Some (Inl e)
        | Inr st' \<Rightarrow> while_loop body loader n_iter st')
     else Some (Inr st))"

text \<open>
  \<open>run_stochastic(self, n_iter)\<close>, lines 70-103. \<open>None\<close>: the call does not return.
  The variable \<open>x\<close> of line 76 is a clone of \<open>self.x0\<close>: it shows the same tensor,
  flattened, on a new storage. The steps of the optimizer write into that storage
  (line 101), and line 103 binds \<open>self.beta\<close> to a clone of \<open>x\<close>, on a new storage
  again.
\<close>

definition run_stochastic :: "globals \<Rightarrow> 'o library \<Rightarrow> Solver \<Rightarrow> int \<Rightarrow> (error + Solver) option" where
  "run_stochastic g lib self n_iter =
    (case self_X self of None \<Rightarrow> Some (Inl (AttributeError ''X'')) | Some sX \<Rightarrow>
     case self_y self of None \<Rightarrow> Some (Inl (AttributeError ''y'')) | Some sy \<Rightarrow>
     case DataLoader lib (value_of sX) (value_of sy) (batch_size self) of
       None \<Rightarrow> Some (Inl LibraryError) | Some loader \<Rightarrow>
     case self_x0 self of None \<Rightarrow> Some (Inl (AttributeError ''x0'')) | Some x0 \<Rightarrow>
       let x = in_storage (flatten (value_of x0)) (allocated self) in
       if \<not> floating (dtype x) then Some (Inl RuntimeError)
       else if solver self = ''pgd'' then
         let optimizer = PGD lib (value_of x) 0.05 (momentum self) (normalization self);
             counter = 0
         in (case penalty_scale g self of
               Inl e \<Rightarrow> Some (Inl e)
             | Inr alpha \<Rightarrow>
                (case while_loop (loop_body lib self alpha) loader n_iter (counter, optimizer) of
                   None \<Rightarrow> None
                 | Some (Inl e) \<Rightarrow> Some (Inl e)
                 | Some (Inr (counter, optimizer)) \<Rightarrow>
                     let self = write_through (storage x) (elems (variable lib optimizer)) self
                     in Some (Inr (self
                          \<lparr>self_beta := Some (in_storage (variable lib optimizer) (allocated self + 1)),
                           allocated := allocated self + 2\<rparr>))))
       else Some (Inl NotImplementedError))"

subsection \<open>run_full_batch\<close>

text \<open>
  The closure \<open>logloss\<close>, lines 112-119. In \<open>self.criterion(out, y)\<close> the attribute is
  read before the argument \<open>y\<close> is evaluated.
\<close>

definition logloss :: "globals \<Rightarrow> 'o library \<Rightarrow> Solver \<Rightarrow> tensor \<Rightarrow> error + real" where
  "logloss g lib self x =
    (case penalty_scale g self of Inl e \<Rightarrow> Inl e | Inr alpha \<Rightarrow>
     case lookup_tensor g ''X'' of Inl e \<Rightarrow> Inl e | Inr X \<Rightarrow>
       let out = bmv lib X x in
       (case self_criterion self of None \<Rightarrow> Inl (AttributeError ''criterion'') | Some criterion \<Rightarrow>
        case lookup_tensor g ''y'' of Inl e \<Rightarrow> Inl e | Inr y \<Rightarrow>
          let loss = criterion out y;
              reg = 0.5 * alpha * sum_squares x
          in Inr (loss + reg)))"

definition reshape_row :: "tensor \<Rightarrow> tensor" where
  "reshape_row t = t\<lparr>shape := [1, length (elems t)]\<rparr>"

text \<open>
  Lines 110-132 with the solver \<open>'pgd'\<close>: the call of \<open>minimize_pgd\<close> on a view of
  \<open>self.x0\<close> (\<open>reshape\<close> keeps the storage). The result is what the call returns or
  raises, and the object as the call leaves it: what the call wrote into the view is
  seen through every attribute on the storage of \<open>self.x0\<close>.
\<close>

definition call_minimize_pgd ::
  "globals \<Rightarrow> 'o library \<Rightarrow> Solver \<Rightarrow> handle \<Rightarrow> int \<Rightarrow> (error + tensor) \<times> Solver" where
  "call_minimize_pgd g lib self t n_iter =
    (let x0 = reshape_row (value_of t);
         step = (if line_search self then Some ''backtracking'' else None)
     in case minimize_pgd lib (logloss g lib self) x0 (\<lambda>x s. x) step n_iter of
          (outcome, left) \<Rightarrow> (outcome, write_through (storage t) left self))"

text \<open>
  \<open>run_full_batch(self, n_iter)\<close>, lines 105-137. The point that \<open>minimize_pgd\<close>
  returns is taken to be on a storage of its own.
\<close>

definition run_full_batch :: "globals \<Rightarrow> 'o library \<Rightarrow> Solver \<Rightarrow> int \<Rightarrow> (error + Solver) option" where
  "run_full_batch g lib self n_iter =
    (case self_x0 self of None \<Rightarrow> Some (Inl (AttributeError ''x0'')) | Some t \<Rightarrow>
       if solver self = ''pgd'' then
         (case call_minimize_pgd g lib self t n_iter of
            (Inl e, self) \<Rightarrow> Some (Inl e)
          | (Inr result_x, self) \<Rightarrow>
              Some (Inr (self\<lparr>self_beta := Some (in_storage result_x (allocated self)),
                              allocated := allocated self + 1\<rparr>)))
       else Some (Inl NotImplementedError))"

subsection \<open>run and get_result\<close>

text \<open>
  \<open>run(self, n_iter)\<close>, lines 139-150. The change of the warning filters (line 145) has
  no effect on the object and is left out. With \<open>n_iter = 0\<close>, \<open>self.beta\<close> is bound to
  the object \<open>self.x0\<close> itself.
\<close>

definition run :: "globals \<Rightarrow> 'o library \<Rightarrow> Solver \<Rightarrow> int \<Rightarrow> (error + Solver) option" where
  "run g lib self n_iter =
    (if n_iter = 0 then
       (case self_x0 self of
          None \<Rightarrow> Some (Inl (AttributeError ''x0''))
        | Some x0 \<Rightarrow> Some (Inr (self\<lparr>self_beta := Some x0\<rparr>)))
     else if stochastic self then run_stochastic g lib self n_iter
     else run_full_batch g lib self n_iter)"

text \<open>
  \<open>get_result(self)\<close>, lines 152-153: the entries of \<open>self.beta\<close> as a flat array in
  host memory, a copy (\<open>flatten\<close> of numpy copies).
\<close>

definition get_result :: "Solver \<Rightarrow> error + tensor" where
  "get_result self =
    (case self_beta self of
       None \<Rightarrow> Inl (AttributeError ''beta'')
     | Some beta \<Rightarrow> Inr (flatten (to_device (value_of beta) ''cpu'')))"

subsection \<open>Repeated calls\<close>






subsection \<open>A small instance\<close>

text \<open>
  A design matrix of three samples and two features in single precision, the same
  matrix with integer entries, labels \<open>1, -1, 0\<close>, a configuration, and an instance of
  the libraries: the loader cuts the three samples into batches of two, each step of
  the optimizer adds one to every entry of the variable and to a count of the steps,
  and \<open>minimize_pgd\<close> evaluates the closure once at its starting point, returns that
  point and leaves the array it was handed as it found it.
\<close>

definition example_X :: tensor where
  "example_X = \<lparr>dtype = Float32, tdevice = ''cpu'', shape = [3, 2], elems = [1, 2, 3, 4, 5, 6]\<rparr>"

definition example_X_int :: tensor where
  "example_X_int = \<lparr>dtype = Int64, tdevice = ''cpu'', shape = [3, 2], elems = [1, 2, 3, 4, 5, 6]\<rparr>"

definition example_y :: tensor where
  "example_y = \<lparr>dtype = Int64, tdevice = ''cpu'', shape = [3], elems = [1, - 1, 0]\<rparr>"

definition example_solver :: Solver where
  "example_solver =
     \<lparr>solver = ''pgd'', line_search = False, stochastic = True, batch_size = PInt 2,
      normalization = ''none'', momentum = 0, device = ''cuda'',
      self_lmbd = None, self_X = None, self_y = None, self_x0 = None,
      self_criterion = None, self_beta = None, allocated = 0\<rparr>"

definition example_loader :: "(tensor \<times> tensor) list" where
  "example_loader =
     [(\<lparr>dtype = Float32, tdevice = ''cuda'', shape = [2, 2], elems = [1, 2, 3, 4]\<rparr>,
       \<lparr>dtype = Float64, tdevice = ''cuda'', shape = [2], elems = [1, 0]\<rparr>),
      (\<lparr>dtype = Float32, tdevice = ''cuda'', shape = [1, 2], elems = [5, 6]\<rparr>,
       \<lparr>dtype = Float64, tdevice = ''cuda'', shape = [1], elems = [0]\<rparr>)]"

definition example_lib :: "(tensor \<times> nat) library" where
  "example_lib =
     \<lparr>DataLoader = (\<lambda>X y b. if b = PInt 2 then Some example_loader else None),
      BCEWithLogitsLoss = (\<lambda>pred target. 0),
      matmul = (\<lambda>data x. x),
      bmv = (\<lambda>X x. x),
      PGD = (\<lambda>x lr momentum normalization. (x, 0)),
      variable = fst,
      backward_step = (\<lambda>loss opt.
         ((fst opt)\<lparr>elems := map (\<lambda>v. v + 1) (elems (fst opt))\<rparr>, Suc (snd opt))),
      minimize_pgd = (\<lambda>closure x0 prox step max_iter.
         (case closure x0 of Inl e \<Rightarrow> Inl e | Inr v \<Rightarrow> Inr (prox x0 None), elems x0))\<rparr>"

text \<open>The object once \<open>set_objective\<close> has run on the instance with \<open>lmbd = 1\<close>.\<close>

definition example_state :: Solver where
  "example_state = example_solver
     \<lparr>self_lmbd := Some 1,
      self_X := Some \<lparr>dtype = Float32, tdevice = ''cuda'', shape = [3, 2],
                     elems = [1, 2, 3, 4, 5, 6], storage = 0\<rparr>,
      self_y := Some \<lparr>dtype = Float64, tdevice = ''cuda'', shape = [3], elems = [1, 0, 0],
                     storage = 1\<rparr>,
      self_x0 := Some \<lparr>dtype = Float32, tdevice = ''cpu'', shape = [2], elems = [0, 0],
                      storage = 2\<rparr>,
      self_criterion := Some (BCEWithLogitsLoss example_lib),
      allocated := 3\<rparr>"

text \<open>
  The object once \<open>set_objective\<close> has run with the solver \<open>'sgd'\<close> on the matrix with
  integer entries.
\<close>

definition example_state_int :: Solver where
  "example_state_int = example_solver
     \<lparr>solver := ''sgd'',
      self_lmbd := Some 1,
      self_X := Some \<lparr>dtype = Int64, tdevice = ''cuda'', shape = [3, 2],
                     elems = [1, 2, 3, 4, 5, 6], storage = 0\<rparr>,
      self_y := Some \<lparr>dtype = Float64, tdevice = ''cuda'', shape = [3], elems = [1, 0, 0],
                     storage = 1\<rparr>,
      self_x0 := Some \<lparr>dtype = Int64, tdevice = ''cpu'', shape = [2], elems = [0, 0],
                      storage = 2\<rparr>,
      self_criterion := Some (BCEWithLogitsLoss example_lib),
      allocated := 3\<rparr>"



section \<open>Properties\<close>

subsection \<open>The loops\<close>

lemma for_loader_ok:
  assumes "\<And>b st. body b st = Inr (fst st + 1, f b (snd st))"
  shows "for_loader body loader (c, opt) = Inr (c + int (length loader), fold f loader opt)"
  using assms by (induction loader arbitrary: c opt) (simp_all add: add.assoc)

text \<open>
  With a body that does not raise and a loader that is not empty, the \<open>while\<close> loop
  returns after \<open>k\<close> whole passes, \<open>k\<close> being the number of passes it takes the counter
  to reach \<open>n_iter\<close>.
\<close>

lemma while_loop_passes:
  assumes body: "\<And>b st. body b st = Inr (fst st + 1, f b (snd st))"
    and nonempty: "loader \<noteq> []"
  shows "nat ((n_iter - c + int (length loader) - 1) div int (length loader)) = k \<Longrightarrow>
         while_loop body loader n_iter (c, opt) =
           Some (Inr (c + int k * int (length loader), fold f (concat (replicate k loader)) opt))"
proof (induction k arbitrary: c opt)
  case 0
  have b: "0 < int (length loader)" using nonempty by simp
  have "\<not> 0 < (n_iter - c + int (length loader) - 1) div int (length loader)" using 0 by simp
  then have "\<not> int (length loader) \<le> n_iter - c + int (length loader) - 1"
    using b pos_imp_zdiv_pos_iff by blast
  then have "\<not> c < n_iter" by simp
  then show ?case by (subst while_loop.simps) simp
next
  case (Suc k)
  let ?b = "int (length loader)"
  have b: "0 < ?b" using nonempty by simp
  have pos: "0 < (n_iter - c + ?b - 1) div ?b" using Suc.prems by linarith
  then have "?b \<le> n_iter - c + ?b - 1" using b pos_imp_zdiv_pos_iff by blast
  then have enter: "c < n_iter" by simp
  have split: "n_iter - c + ?b - 1 = (n_iter - (c + ?b) + ?b - 1) + ?b" by linarith
  have "(n_iter - c + ?b - 1) div ?b = (n_iter - (c + ?b) + ?b - 1) div ?b + 1"
    using b by (subst split) (rule div_add_self2, simp)
  then have "nat ((n_iter - (c + ?b) + ?b - 1) div ?b) = k" using Suc.prems by linarith
  from Suc.IH [OF this]
  have rest: "while_loop body loader n_iter (c + ?b, fold f loader opt) =
       Some (Inr (c + ?b + int k * ?b, fold f (concat (replicate k loader)) (fold f loader opt)))" .
  have "while_loop body loader n_iter (c, opt) =
          while_loop body loader n_iter (c + ?b, fold f loader opt)"
    using enter for_loader_ok [of body f loader c opt, OF body]
    by (subst while_loop.simps) simp
  also note rest
  finally show ?case by (simp add: algebra_simps)
qed

text \<open>An exception that leaves a loop was raised by its body.\<close>

lemma for_loader_error:
  "for_loader body loader st = Inl e \<Longrightarrow> \<exists>b s. body b s = Inl e"
  by (induction loader arbitrary: st) (auto split: sum.splits)

lemma while_loop_error:
  assumes "while_loop body loader n_iter st = Some r"
  shows "\<forall>e. r = Inl e \<longrightarrow> (\<exists>b s. body b s = Inl e)"
  apply (rule while_loop.raw_induct
    [where P = "\<lambda>body loader n st r. \<forall>e. r = Inl e \<longrightarrow> (\<exists>b s. body b s = Inl e)", OF _ assms])
  subgoal premises prems for rec body loader n_iter st r
  proof (cases "fst st < n_iter")
    case False
    with prems(2) show ?thesis by auto
  next
    case True
    show ?thesis
    proof (cases "for_loader body loader st")
      case (Inl e')
      then have "r = Inl e'" using True prems(2) by simp
      with for_loader_error [OF Inl] show ?thesis by simp
    next
      case (Inr st')
      with True prems(2) have "rec body loader n_iter st' = Some r" by simp
      then show ?thesis by (rule prems(1))
    qed
  qed
  done



text \<open>The body of the loop: one more on the counter, one step of the optimizer.\<close>

lemma loop_body_step:
  assumes "self_criterion self = Some criterion"
  shows "loop_body lib self alpha b st =
           Inr (fst st + 1,
                (\<lambda>(data, target). backward_step lib (batch_loss lib criterion alpha data target))
                  b (snd st))"
  using assms by (cases b; cases st) (simp add: loop_body_def)

lemma loop_body_error:
  "loop_body lib self alpha b st = Inl e \<Longrightarrow> e = AttributeError ''criterion''"
  by (cases b; cases st) (auto simp: loop_body_def Let_def split: option.splits)


subsection \<open>skip\<close>

text \<open>
  C1. For every configuration, \<open>skip\<close> answers true exactly when one of the six
  degenerate conditions holds: the device is cuda and cuda is not available; the run is
  not stochastic and the batch size is not \<open>'full'\<close>; the run is stochastic and the
  batch size is \<open>'full'\<close>; the run is stochastic with line search; the run is not
  stochastic and the normalization is not \<open>'none'\<close>; the run is not stochastic and the
  momentum is not zero. When it answers true it gives a reason, a text that is not
  empty; otherwise it returns \<open>(False, None)\<close>.
\<close>

theorem skip_decision:
  "(fst (skip cuda_is_available self X y lmbd) \<longleftrightarrow>
      device self = ''cuda'' \<and> \<not> cuda_is_available
    \<or> \<not> stochastic self \<and> batch_size self \<noteq> PStr ''full''
    \<or> stochastic self \<and> batch_size self = PStr ''full''
    \<or> stochastic self \<and> line_search self
    \<or> \<not> stochastic self \<and> normalization self \<noteq> ''none''
    \<or> \<not> stochastic self \<and> momentum self \<noteq> 0)
   \<and> (fst (skip cuda_is_available self X y lmbd) \<longrightarrow>
        (\<exists>reason. snd (skip cuda_is_available self X y lmbd) = Some reason \<and> reason \<noteq> []))
   \<and> (\<not> fst (skip cuda_is_available self X y lmbd) \<longrightarrow>
        skip cuda_is_available self X y lmbd = (False, None))"
  unfolding skip_def by (simp split: if_splits)

theorem skip_decision_witness:
  "fst (skip False example_solver example_X example_y 1)
   \<and> (\<exists>reason. snd (skip False example_solver example_X example_y 1) = Some reason \<and> reason \<noteq> [])
   \<and> \<not> fst (skip True example_solver example_X example_y 1)
   \<and> skip True example_solver example_X example_y 1 = (False, None)"
  using skip_decision [of False example_solver example_X example_y 1]
        skip_decision [of True example_solver example_X example_y 1]
  by (simp add: example_solver_def)

text \<open>
  C9. The answer of \<open>skip\<close> depends on the configuration and on the availability of
  cuda only: whatever the arguments \<open>X\<close>, \<open>y\<close> and \<open>lmbd\<close>, it is the same pair.
\<close>

theorem skip_ignores_problem:
  "skip cuda_is_available self X y lmbd = skip cuda_is_available self X' y' lmbd'"
  by (simp add: skip_def)

subsection \<open>Tensor objects\<close>

lemma value_of_in_storage: "value_of (in_storage t s) = t"
  by (simp add: value_of_def in_storage_def)







subsection \<open>set_objective\<close>

text \<open>What a call of \<open>set_objective\<close> that returns has assigned.\<close>

lemma set_objective_result:
  assumes "set_objective lib self X y lmbd = Inr s"
  shows "\<exists>n_samples n_features. shape X = [n_samples, n_features] \<and>
     s = self\<lparr>self_lmbd := Some lmbd,
              self_X := Some (in_storage (to_device X (device self)) (allocated self)),
              self_y := Some (in_storage (to_device (positive_labels y Float64) (device self))
                               (allocated self + 1)),
              self_x0 := Some (in_storage (zeros n_features (dtype X) (tdevice X))
                                (allocated self + 2)),
              allocated := allocated self + 3,
              self_criterion := Some (BCEWithLogitsLoss lib)\<rparr>"
  using assms unfolding set_objective_def Let_def
  by (auto split: list.splits)

lemma example_setup:
  "set_objective example_lib example_solver example_X example_y 1 = Inr example_state"
  by (simp add: set_objective_def example_X_def example_y_def example_state_def example_solver_def
      to_device_def positive_labels_def zeros_def in_storage_def Let_def numeral_2_eq_2)

text \<open>
  C6. For every label vector \<open>y\<close>, after \<open>set_objective\<close> the stored label vector has
  the shape of \<open>y\<close> and at every index \<open>i\<close> the value 1.0 if \<open>y[i] > 0\<close> and 0.0
  otherwise.
\<close>

theorem labels_binarized:
  assumes "set_objective lib self X y lmbd = Inr s"
  shows "\<exists>sy. self_y s = Some sy \<and> shape sy = shape y \<and> length (elems sy) = length (elems y) \<and>
          (\<forall>i < length (elems y). elems sy ! i = (if elems y ! i > 0 then 1 else 0))"
  using set_objective_result [OF assms]
  by (auto simp: to_device_def positive_labels_def in_storage_def)

theorem labels_binarized_witness:
  "set_objective example_lib example_solver example_X example_y 1 = Inr example_state \<and>
   (\<exists>sy. self_y example_state = Some sy \<and> shape sy = [3] \<and> length (elems sy) = 3 \<and>
        elems sy ! 0 = 1 \<and> elems sy ! 1 = 0 \<and> elems sy ! 2 = 0)"
proof -
  from labels_binarized [OF example_setup] obtain sy where
    sy: "self_y example_state = Some sy" "shape sy = shape example_y"
      "length (elems sy) = length (elems example_y)"
    and entries: "\<forall>i < length (elems example_y).
                    elems sy ! i = (if elems example_y ! i > 0 then 1 else 0)"
    by blast
  have three: "length (elems example_y) = 3" by (simp add: example_y_def)
  from entries three have "elems sy ! 0 = 1" "elems sy ! 1 = 0" "elems sy ! 2 = 0"
    by (simp_all add: example_y_def)
  with sy three example_setup show ?thesis by (simp add: example_y_def)
qed

text \<open>
  C10. After \<open>set_objective\<close> the stored label vector is in double precision whatever
  the precision of the labels and of the design matrix, while the stored matrix and the
  initial point have the precision of the matrix passed in; so with a matrix in single
  precision the precisions of the label vector and of the initial point differ.
\<close>

theorem labels_double_precision:
  assumes "set_objective lib self X y lmbd = Inr s"
  shows "\<exists>sX sy x0. self_X s = Some sX \<and> self_y s = Some sy \<and> self_x0 s = Some x0 \<and>
           dtype sy = Float64 \<and> dtype sX = dtype X \<and> dtype x0 = dtype X \<and>
           (dtype sX = Float32 \<longrightarrow> dtype sy \<noteq> dtype x0)"
  using set_objective_result [OF assms]
  by (auto simp: to_device_def positive_labels_def zeros_def in_storage_def)

theorem labels_double_precision_witness:
  "set_objective example_lib example_solver example_X example_y 1 = Inr example_state \<and>
   (\<exists>sX sy x0. self_X example_state = Some sX \<and> self_y example_state = Some sy \<and>
        self_x0 example_state = Some x0 \<and> dtype sy = Float64 \<and> dtype sX = Float32 \<and>
        dtype sy \<noteq> dtype x0)"
  using example_setup labels_double_precision [OF example_setup]
  by (auto simp: example_X_def)

text \<open>
  C5. The initial point is a zero vector of length \<open>n_features\<close> with the precision of
  the design matrix, but it lives on the device of the matrix passed in, not on the
  device of the stored matrix: with the configured device \<open>cuda\<close> and a matrix passed
  in host memory, the stored matrix is on \<open>cuda\<close> and the initial point on \<open>cpu\<close>.
\<close>

theorem initial_point_device:
  "set_objective example_lib example_solver example_X example_y 1 = Inr example_state \<and>
   device example_state = ''cuda'' \<and>
   map_option tdevice (self_X example_state) = Some ''cuda'' \<and>
   map_option tdevice (self_x0 example_state) = Some ''cpu''"
  using example_setup by (simp add: example_state_def example_solver_def)

subsection \<open>run with no iterations\<close>

text \<open>
  C4. For every configuration, once \<open>set_objective\<close> has run, \<open>run\<close> with
  \<open>n_iter = 0\<close> returns with \<open>self.beta\<close> bound to the initial point, and \<open>get_result\<close>
  then gives the zero vector of length \<open>n_features\<close>. The result is the same under
  every namespace and every instance of the libraries (the instance \<open>lib'\<close> of the call
  is arbitrary): no optimizer takes part in it.
\<close>

theorem run_zero_iterations:
  assumes "set_objective lib self X y lmbd = Inr s"
  shows "\<exists>n_samples n_features. shape X = [n_samples, n_features] \<and>
           run g lib' s 0 = Some (Inr (s\<lparr>self_beta := self_x0 s\<rparr>)) \<and>
           get_result (s\<lparr>self_beta := self_x0 s\<rparr>) =
             Inr \<lparr>dtype = dtype X, tdevice = ''cpu'', shape = [n_features],
                  elems = replicate n_features 0\<rparr>"
  using set_objective_result [OF assms]
  by (auto simp: run_def get_result_def zeros_def flatten_def to_device_def in_storage_def value_of_def)

theorem run_zero_iterations_witness:
  "set_objective example_lib example_solver example_X example_y 1 = Inr example_state \<and>
   run module_globals example_lib example_state 0 =
     Some (Inr (example_state\<lparr>self_beta := self_x0 example_state\<rparr>)) \<and>
   get_result (example_state\<lparr>self_beta := self_x0 example_state\<rparr>) =
     Inr \<lparr>dtype = Float32, tdevice = ''cpu'', shape = [2], elems = [0, 0]\<rparr>"
  using example_setup run_zero_iterations [OF example_setup, of module_globals example_lib]
  by (simp add: example_X_def numeral_2_eq_2)

subsection \<open>The stochastic loop\<close>

text \<open>
  C2, as amended. The loop of the stochastic runner (lines 91-101), entered with the
  counter at 0, a budget \<open>n_iter > 0\<close> and a loader of \<open>b > 0\<close> batches, returns after
  whole passes over the loader only: the counter goes up by one per batch and is
  compared with \<open>n_iter\<close> between two passes, never inside one. The loop makes
  \<open>passes * b\<close> steps of the optimizer, on the batches of the loader in order, pass
  after pass, where \<open>passes\<close> is \<open>n_iter / b\<close> rounded up: the least multiple of \<open>b\<close>
  that is not below \<open>n_iter\<close>, which is \<open>n_iter\<close> itself only when \<open>b\<close> divides
  \<open>n_iter\<close>.
\<close>

theorem stochastic_whole_passes:
  assumes "loader \<noteq> []"
    and "self_criterion self = Some criterion"
    and "0 < n_iter"
    and "passes = nat ((n_iter + int (length loader) - 1) div int (length loader))"
  shows "while_loop (loop_body lib self alpha) loader n_iter (0, optimizer) =
           Some (Inr (int passes * int (length loader),
                      fold (\<lambda>(data, target). backward_step lib (batch_loss lib criterion alpha data target))
                           (concat (replicate passes loader)) optimizer))
       \<and> n_iter \<le> int passes * int (length loader)
       \<and> int passes * int (length loader) < n_iter + int (length loader)"
proof -
  let ?b = "int (length loader)"
  have b: "0 < ?b" using assms(1) by simp
  have k: "nat ((n_iter - 0 + ?b - 1) div ?b) = passes" using assms(4) by simp
  have loop: "while_loop (loop_body lib self alpha) loader n_iter (0, optimizer) =
           Some (Inr (0 + int passes * ?b,
                      fold (\<lambda>(data, target). backward_step lib (batch_loss lib criterion alpha data target))
                           (concat (replicate passes loader)) optimizer))"
    by (rule while_loop_passes [OF loop_body_step [OF assms(2)] assms(1) k])
  have nonneg: "0 \<le> (n_iter + ?b - 1) div ?b"
    using b assms(3) by (simp add: pos_imp_zdiv_nonneg_iff)
  then have passes: "int passes = (n_iter + ?b - 1) div ?b" using assms(4) by simp
  have decomp: "int passes * ?b + (n_iter + ?b - 1) mod ?b = n_iter + ?b - 1"
    unfolding passes by simp
  have low: "0 \<le> (n_iter + ?b - 1) mod ?b" and high: "(n_iter + ?b - 1) mod ?b < ?b"
    using b by simp_all
  have "n_iter \<le> int passes * ?b" using decomp high by linarith
  moreover have "int passes * ?b < n_iter + ?b" using decomp low by linarith
  ultimately have bounds: "n_iter \<le> int passes * ?b \<and> int passes * ?b < n_iter + ?b" ..
  from loop bounds show ?thesis by simp
qed

lemma example_criterion: "self_criterion example_state = Some (BCEWithLogitsLoss example_lib)"
  by (simp add: example_state_def)

theorem stochastic_whole_passes_witness:
  "example_loader \<noteq> [] \<and> (0::int) < 3
   \<and> while_loop (loop_body example_lib example_state (1 / 3)) example_loader 3
        (0, (\<lparr>dtype = Float32, tdevice = ''cpu'', shape = [2], elems = [0, 0]\<rparr>, 0)) =
      Some (Inr (4, (\<lparr>dtype = Float32, tdevice = ''cpu'', shape = [2], elems = [4, 4]\<rparr>, 4)))"
proof -
  have l: "example_loader \<noteq> []" by (simp add: example_loader_def)
  have n: "(0::int) < 3" by simp
  have k: "(2::nat) = nat ((3 + int (length example_loader) - 1) div int (length example_loader))"
    by (simp add: example_loader_def)
  show ?thesis
    using l stochastic_whole_passes [OF l example_criterion n k, of example_lib "1 / 3"
        "(\<lparr>dtype = Float32, tdevice = ''cpu'', shape = [2], elems = [0, 0]\<rparr>, 0)"]
    by (simp add: example_loader_def example_lib_def numeral_2_eq_2)
qed

text \<open>
  C2 as stated (exactly \<open>n_iter\<close> steps, stopping inside a pass) fails: with a budget
  of one step and a loader of two batches the loop ends with the counter
  at 2, after two steps of the optimizer (each step of the instance adds one to the
  entries of the variable and to its count).
\<close>

theorem stochastic_steps_counterexample:
  "while_loop (loop_body example_lib example_state (1 / 3)) example_loader 1
        (0, (\<lparr>dtype = Float32, tdevice = ''cpu'', shape = [2], elems = [0, 0]\<rparr>, 0)) =
      Some (Inr (2, (\<lparr>dtype = Float32, tdevice = ''cpu'', shape = [2], elems = [2, 2]\<rparr>, 2)))"
proof -
  have l: "example_loader \<noteq> []" by (simp add: example_loader_def)
  have k: "nat ((1 - 0 + int (length example_loader) - 1) div int (length example_loader)) = 1"
    by (simp add: example_loader_def)
  have "while_loop (loop_body example_lib example_state (1 / 3)) example_loader 1
        (0, (\<lparr>dtype = Float32, tdevice = ''cpu'', shape = [2], elems = [0, 0]\<rparr>, 0)) =
      Some (Inr (0 + int 1 * int (length example_loader),
        fold (\<lambda>(data, target). backward_step example_lib
                 (batch_loss example_lib (BCEWithLogitsLoss example_lib) (1 / 3) data target))
          (concat (replicate 1 example_loader))
          (\<lparr>dtype = Float32, tdevice = ''cpu'', shape = [2], elems = [0, 0]\<rparr>, 0)))"
    by (rule while_loop_passes [OF loop_body_step [OF example_criterion] l k])
  then show ?thesis
    by (simp add: example_loader_def example_lib_def)
qed

subsection \<open>Solvers other than pgd\<close>

lemma penalty_scale_error:
  "penalty_scale g self \<noteq> Inl NotImplementedError"
  by (auto simp: penalty_scale_def lookup_tensor_def split: option.splits sum.splits pyobj.splits list.splits)

lemma logloss_error:
  "logloss g lib self x \<noteq> Inl NotImplementedError"
  using penalty_scale_error [of g self]
  by (auto simp: logloss_def lookup_tensor_def Let_def split: option.splits sum.splits pyobj.splits)

lemma run_stochastic_pgd_error:
  assumes "solver self = ''pgd''"
  shows "run_stochastic g lib self n_iter \<noteq> Some (Inl NotImplementedError)"
proof
  assume raised: "run_stochastic g lib self n_iter = Some (Inl NotImplementedError)"
  then obtain alpha loader opt where
    loop: "while_loop (loop_body lib self alpha) loader n_iter (0, opt) = Some (Inl NotImplementedError)"
    using assms penalty_scale_error [of g self]
    by (auto simp: run_stochastic_def Let_def split: option.splits sum.splits if_splits)
  from while_loop_error [OF loop] obtain b s where "loop_body lib self alpha b s = Inl NotImplementedError"
    by blast
  from loop_body_error [OF this] show False by simp
qed

text \<open>
  C7, as amended. On an object that \<open>set_objective\<close> has set up, with a solver name
  other than \<open>'pgd'\<close>: \<open>run_full_batch\<close> raises \<open>NotImplementedError\<close> whatever the
  budget. \<open>run_stochastic\<close> raises it only when the statements before the test of the
  solver name (lines 72-77) have passed: when the data loader cannot be built it is the
  exception of the loader that leaves the method, and when the design matrix, and so
  the initial point, does not have floating-point entries it is the \<open>RuntimeError\<close> of
  \<open>requires_grad_\<close> (line 77). For \<open>n_iter > 0\<close>, \<open>run\<close> raises what the path of the
  configuration raises. No path assigns a result. With the solver \<open>'pgd'\<close> the adapter
  raises no \<open>NotImplementedError\<close>: the stochastic path and the closure \<open>logloss\<close>
  never do, and the full-batch path only when \<open>minimize_pgd\<close> itself does.
\<close>

theorem unsupported_solver:
  assumes "set_objective lib self0 X y lmbd = Inr self"
  shows "(solver self \<noteq> ''pgd'' \<longrightarrow>
            run_full_batch g lib self n_iter = Some (Inl NotImplementedError)
          \<and> (DataLoader lib (to_device X (device self))
                (to_device (positive_labels y Float64) (device self)) (batch_size self) = None \<longrightarrow>
               run_stochastic g lib self n_iter = Some (Inl LibraryError))
          \<and> (DataLoader lib (to_device X (device self))
                (to_device (positive_labels y Float64) (device self)) (batch_size self) \<noteq> None \<longrightarrow>
               run_stochastic g lib self n_iter =
                 Some (Inl (if floating (dtype X) then NotImplementedError else RuntimeError)))
          \<and> (0 < n_iter \<longrightarrow> run g lib self n_iter =
                (if stochastic self then run_stochastic g lib self n_iter
                 else Some (Inl NotImplementedError))))
       \<and> (solver self = ''pgd'' \<longrightarrow>
            run_stochastic g lib self n_iter \<noteq> Some (Inl NotImplementedError)
          \<and> logloss g lib self x \<noteq> Inl NotImplementedError
          \<and> (run_full_batch g lib self n_iter = Some (Inl NotImplementedError) \<longrightarrow>
                (\<exists>x0 step. fst (minimize_pgd lib (logloss g lib self) x0 (\<lambda>x s. x) step n_iter) =
                              Inl NotImplementedError)))"
proof -
  from set_objective_result [OF assms] obtain n_samples n_features where
    self: "self = self0\<lparr>self_lmbd := Some lmbd,
              self_X := Some (in_storage (to_device X (device self0)) (allocated self0)),
              self_y := Some (in_storage (to_device (positive_labels y Float64) (device self0))
                               (allocated self0 + 1)),
              self_x0 := Some (in_storage (zeros n_features (dtype X) (tdevice X))
                                (allocated self0 + 2)),
              allocated := allocated self0 + 3,
              self_criterion := Some (BCEWithLogitsLoss lib)\<rparr>" by blast
  have x_dtype: "dtype (in_storage (flatten (zeros n_features (dtype X) (tdevice X))) k) = dtype X" for k
    by (simp add: in_storage_def flatten_def zeros_def)
  have full: "solver self \<noteq> ''pgd'' \<Longrightarrow> run_full_batch g lib self n_iter = Some (Inl NotImplementedError)"
    by (simp add: self run_full_batch_def)
  have no_loader: "DataLoader lib (to_device X (device self))
        (to_device (positive_labels y Float64) (device self)) (batch_size self) = None \<Longrightarrow>
      run_stochastic g lib self n_iter = Some (Inl LibraryError)"
    by (simp add: self run_stochastic_def value_of_in_storage)
  have stoch: "solver self \<noteq> ''pgd'' \<Longrightarrow>
      DataLoader lib (to_device X (device self))
        (to_device (positive_labels y Float64) (device self)) (batch_size self) \<noteq> None \<Longrightarrow>
      run_stochastic g lib self n_iter =
        Some (Inl (if floating (dtype X) then NotImplementedError else RuntimeError))"
    by (auto simp: self run_stochastic_def Let_def value_of_in_storage x_dtype)
  have pgd: "solver self = ''pgd'' \<Longrightarrow>
      run_full_batch g lib self n_iter = Some (Inl NotImplementedError) \<Longrightarrow>
      \<exists>x0 step. fst (minimize_pgd lib (logloss g lib self) x0 (\<lambda>x s. x) step n_iter) =
                   Inl NotImplementedError"
    by (auto simp: run_full_batch_def call_minimize_pgd_def Let_def
        split: option.splits prod.splits sum.splits) (metis fst_conv)
  show ?thesis
    using full no_loader stoch pgd run_stochastic_pgd_error [of self g lib n_iter]
      logloss_error [of g lib self x]
    by (simp add: run_def)
qed

text \<open>The name \<open>X\<close> in the namespace of the module.\<close>

lemma module_globals_X: "lookup_tensor module_globals ''X'' = Inl (NameError ''X'')"
  by (simp add: lookup_tensor_def module_globals_def)

theorem unsupported_solver_witness:
  "set_objective example_lib (example_solver\<lparr>solver := ''sgd''\<rparr>) example_X example_y 1 =
     Inr (example_state\<lparr>solver := ''sgd''\<rparr>)
   \<and> floating (dtype example_X)
   \<and> run_full_batch module_globals example_lib (example_state\<lparr>solver := ''sgd''\<rparr>) 3 =
       Some (Inl NotImplementedError)
   \<and> run_stochastic module_globals example_lib (example_state\<lparr>solver := ''sgd''\<rparr>) 3 =
       Some (Inl NotImplementedError)
   \<and> run module_globals example_lib (example_state\<lparr>solver := ''sgd''\<rparr>) 3 =
       Some (Inl NotImplementedError)
   \<and> set_objective example_lib example_solver example_X example_y 1 = Inr example_state
   \<and> run_stochastic module_globals example_lib example_state 3 \<noteq> Some (Inl NotImplementedError)
   \<and> run_full_batch module_globals example_lib example_state 3 \<noteq> Some (Inl NotImplementedError)"
proof -
  have init: "set_objective example_lib (example_solver\<lparr>solver := ''sgd''\<rparr>) example_X example_y 1 =
     Inr (example_state\<lparr>solver := ''sgd''\<rparr>)"
    by (simp add: set_objective_def example_X_def example_y_def example_state_def example_solver_def
      to_device_def positive_labels_def zeros_def in_storage_def Let_def numeral_2_eq_2)
  have loader: "DataLoader example_lib (to_device example_X (device (example_state\<lparr>solver := ''sgd''\<rparr>)))
       (to_device (positive_labels example_y Float64) (device (example_state\<lparr>solver := ''sgd''\<rparr>)))
       (batch_size (example_state\<lparr>solver := ''sgd''\<rparr>)) \<noteq> None"
    by (simp add: example_lib_def example_state_def example_solver_def)
  have float: "floating (dtype example_X)" by (simp add: floating_def example_X_def)
  have other: "solver (example_state\<lparr>solver := ''sgd''\<rparr>) \<noteq> ''pgd''" by simp
  have mode: "stochastic (example_state\<lparr>solver := ''sgd''\<rparr>)"
    by (simp add: example_state_def example_solver_def)
  have pgd: "solver example_state = ''pgd''"
    by (simp add: example_state_def example_solver_def)
  note sgd_case = unsupported_solver [OF init, of module_globals 3]
  note pgd_case = unsupported_solver [OF example_setup, of module_globals 3]
  from sgd_case other loader float mode
  have a: "run_full_batch module_globals example_lib (example_state\<lparr>solver := ''sgd''\<rparr>) 3 =
             Some (Inl NotImplementedError)"
    and b: "run_stochastic module_globals example_lib (example_state\<lparr>solver := ''sgd''\<rparr>) 3 =
             Some (Inl NotImplementedError)"
    and c: "run module_globals example_lib (example_state\<lparr>solver := ''sgd''\<rparr>) 3 =
             Some (Inl NotImplementedError)"
    by simp_all
  from pgd_case pgd
  have d: "run_stochastic module_globals example_lib example_state 3 \<noteq> Some (Inl NotImplementedError)"
    by simp
  have "logloss module_globals example_lib example_state x = Inl (NameError ''X'')" for x
    by (simp add: logloss_def penalty_scale_def module_globals_X example_state_def)
  then have "fst (minimize_pgd example_lib (logloss module_globals example_lib example_state)
                    p prox step 3) = Inl (NameError ''X'')" for p prox step
    by (simp add: example_lib_def)
  with pgd_case pgd
  have e: "run_full_batch module_globals example_lib example_state 3 \<noteq> Some (Inl NotImplementedError)"
    by auto
  from init float a b c example_setup d e show ?thesis by simp
qed

text \<open>
  C7 as stated (every solver name other than \<open>'pgd'\<close> gives \<open>NotImplementedError\<close> on
  both paths) fails: with the solver \<open>'sgd'\<close> and a design matrix of integer entries,
  \<open>set_objective\<close> returns, and the stochastic path raises \<open>RuntimeError\<close> at line 77,
  two lines before it looks at the name of the solver.
\<close>

lemma example_setup_int:
  "set_objective example_lib (example_solver\<lparr>solver := ''sgd''\<rparr>) example_X_int example_y 1 =
     Inr example_state_int"
  by (simp add: set_objective_def example_X_int_def example_y_def example_state_int_def
      example_solver_def to_device_def positive_labels_def zeros_def in_storage_def Let_def
      numeral_2_eq_2)

theorem unsupported_solver_counterexample:
  "set_objective example_lib (example_solver\<lparr>solver := ''sgd''\<rparr>) example_X_int example_y 1 =
     Inr example_state_int
   \<and> run_stochastic module_globals example_lib example_state_int 3 = Some (Inl RuntimeError)
   \<and> run module_globals example_lib example_state_int 3 = Some (Inl RuntimeError)"
proof -
  have "run_stochastic module_globals example_lib example_state_int 3 = Some (Inl RuntimeError)"
    by (simp add: run_stochastic_def example_state_int_def example_solver_def example_lib_def
        in_storage_def value_of_def flatten_def floating_def)
  moreover have "stochastic example_state_int"
    by (simp add: example_state_int_def example_solver_def)
  ultimately show ?thesis using example_setup_int by (simp add: run_def)
qed

subsection \<open>The loss\<close>

text \<open>
  C3. The loss of both run paths is meant to be the criterion on the linear predictions
  plus \<open>(lmbd / n_samples) * |x|^2 / 2\<close>, but the scale \<open>lmbd / n_samples\<close> is written
  \<open>self.lmbd / X.size(0)\<close> (lines 89 and 115), and the module binds no name \<open>X\<close>: on
  the instance, evaluating the scale raises \<open>NameError\<close>, and so do the closure
  \<open>logloss\<close> at any point, \<open>run_stochastic\<close> (before its first step) and
  \<open>run_full_batch\<close> (when \<open>minimize_pgd\<close> calls the closure).
\<close>

theorem penalty_name_error:
  "penalty_scale module_globals example_state = Inl (NameError ''X'')
   \<and> logloss module_globals example_lib example_state
        \<lparr>dtype = Float32, tdevice = ''cpu'', shape = [1, 2], elems = [0, 0]\<rparr> = Inl (NameError ''X'')
   \<and> run_stochastic module_globals example_lib example_state 1 = Some (Inl (NameError ''X''))
   \<and> run_full_batch module_globals example_lib (example_state\<lparr>stochastic := False\<rparr>) 1 =
        Some (Inl (NameError ''X''))"
proof -
  have p: "penalty_scale module_globals s = Inl (NameError ''X'')" if "self_lmbd s = Some 1" for s
    using that by (simp add: penalty_scale_def module_globals_X)
  have l: "self_lmbd example_state = Some 1" "self_lmbd (example_state\<lparr>stochastic := False\<rparr>) = Some 1"
    by (simp_all add: example_state_def)
  have c: "logloss module_globals example_lib s x = Inl (NameError ''X'')" if "self_lmbd s = Some 1" for s x
    using p [OF that] by (simp add: logloss_def)
  have s: "run_stochastic module_globals example_lib example_state 1 = Some (Inl (NameError ''X''))"
    using p [OF l(1)]
    by (simp add: run_stochastic_def example_state_def example_solver_def example_lib_def
        in_storage_def value_of_def flatten_def floating_def)
  have f: "run_full_batch module_globals example_lib (example_state\<lparr>stochastic := False\<rparr>) 1 =
        Some (Inl (NameError ''X''))"
    using c [OF l(2)]
    by (simp add: run_full_batch_def call_minimize_pgd_def example_state_def example_solver_def
        example_lib_def)
  from p [OF l(1)] c [OF l(1)] s f show ?thesis by simp
qed

subsection \<open>Repeated calls\<close>

























end
